theory Spec2Isabelle
  imports Main "HOL-Library.Word"
begin

section \<open>The C types of CoreHapticsFFI.h\<close>

text \<open>
  The header uses \<^verbatim>\<open>void\<close>, the exact-width integers \<^verbatim>\<open>int32_t\<close> and
  \<^verbatim>\<open>uint8_t\<close> of \<^verbatim>\<open>stdint.h\<close>, \<^verbatim>\<open>char\<close>, \<^verbatim>\<open>double\<close>, the
  \<^verbatim>\<open>const\<close> qualifier, pointers, one pointer to function, and the names it introduces
  with \<^verbatim>\<open>typedef\<close>.
\<close>

datatype ctype =
    Void
  | Int32
  | UInt8
  | Char
  | Double
  | Const ctype
  | Ptr ctype
  | FunPtr ctype "ctype list"
  | Named string

text \<open>
  Lines 9 to 13:
  \<^verbatim>\<open>typedef void* CHFFIEngineHandle;\<close>
  \<^verbatim>\<open>typedef void* CHFFIPatternHandle;\<close>
  \<^verbatim>\<open>typedef void* CHFFIPlayerHandle;\<close>
  \<^verbatim>\<open>typedef void (*CHFFIEngineCallback)(int32_t eventCode, const char* message, void* context);\<close>
\<close>

definition typedefs :: "(string \<times> ctype) list" where
  "typedefs =
    [(''CHFFIEngineHandle'', Ptr Void),
     (''CHFFIPatternHandle'', Ptr Void),
     (''CHFFIPlayerHandle'', Ptr Void),
     (''CHFFIEngineCallback'', FunPtr Void [Int32, Ptr (Const Char), Ptr Void])]"

definition handle_names :: "string list" where
  "handle_names = [''CHFFIEngineHandle'', ''CHFFIPatternHandle'', ''CHFFIPlayerHandle'']"

text \<open>
  A typedef name denotes the type it was declared with. No typedef of the header mentions
  another typedef name, so one lookup expands a name completely.
\<close>

fun resolve :: "ctype \<Rightarrow> ctype" where
  "resolve (Named n) = (case map_of typedefs n of Some t \<Rightarrow> t | None \<Rightarrow> Named n)"
| "resolve (Const t) = Const (resolve t)"
| "resolve (Ptr t) = Ptr (resolve t)"
| "resolve (FunPtr r ps) = FunPtr (resolve r) (map resolve ps)"
| "resolve Void = Void"
| "resolve Int32 = Int32"
| "resolve UInt8 = UInt8"
| "resolve Char = Char"
| "resolve Double = Double"

section \<open>The two enumerations\<close>

text \<open>Lines 15 to 27: the anonymous enumeration of status codes.\<close>

datatype chffi_error =
    CHFFI_ERROR_OK
  | CHFFI_ERROR_NOT_SUPPORTED
  | CHFFI_ERROR_ENGINE
  | CHFFI_ERROR_INVALID_HANDLE
  | CHFFI_ERROR_INVALID_ARGUMENT
  | CHFFI_ERROR_PATTERN
  | CHFFI_ERROR_PLAYER
  | CHFFI_ERROR_IO
  | CHFFI_ERROR_DECODE
  | CHFFI_ERROR_RUNTIME
  | CHFFI_ERROR_UNKNOWN

fun error_code :: "chffi_error \<Rightarrow> int" where
  "error_code CHFFI_ERROR_OK = 0"
| "error_code CHFFI_ERROR_NOT_SUPPORTED = 1"
| "error_code CHFFI_ERROR_ENGINE = 2"
| "error_code CHFFI_ERROR_INVALID_HANDLE = 3"
| "error_code CHFFI_ERROR_INVALID_ARGUMENT = 4"
| "error_code CHFFI_ERROR_PATTERN = 5"
| "error_code CHFFI_ERROR_PLAYER = 6"
| "error_code CHFFI_ERROR_IO = 7"
| "error_code CHFFI_ERROR_DECODE = 8"
| "error_code CHFFI_ERROR_RUNTIME = 9"
| "error_code CHFFI_ERROR_UNKNOWN = 255"

text \<open>The enumerators in the order of their declaration.\<close>

definition error_members :: "chffi_error list" where
  "error_members =
    [CHFFI_ERROR_OK, CHFFI_ERROR_NOT_SUPPORTED, CHFFI_ERROR_ENGINE,
     CHFFI_ERROR_INVALID_HANDLE, CHFFI_ERROR_INVALID_ARGUMENT, CHFFI_ERROR_PATTERN,
     CHFFI_ERROR_PLAYER, CHFFI_ERROR_IO, CHFFI_ERROR_DECODE, CHFFI_ERROR_RUNTIME,
     CHFFI_ERROR_UNKNOWN]"

text \<open>Lines 29 to 34: the anonymous enumeration of engine events.\<close>

datatype chffi_event =
    CHFFI_EVENT_ENGINE_STOPPED
  | CHFFI_EVENT_ENGINE_RESET
  | CHFFI_EVENT_ENGINE_INTERRUPTED
  | CHFFI_EVENT_ENGINE_RESTARTED

fun event_code :: "chffi_event \<Rightarrow> int" where
  "event_code CHFFI_EVENT_ENGINE_STOPPED = 1"
| "event_code CHFFI_EVENT_ENGINE_RESET = 2"
| "event_code CHFFI_EVENT_ENGINE_INTERRUPTED = 3"
| "event_code CHFFI_EVENT_ENGINE_RESTARTED = 4"

definition event_members :: "chffi_event list" where
  "event_members =
    [CHFFI_EVENT_ENGINE_STOPPED, CHFFI_EVENT_ENGINE_RESET,
     CHFFI_EVENT_ENGINE_INTERRUPTED, CHFFI_EVENT_ENGINE_RESTARTED]"

section \<open>The declared functions\<close>

text \<open>
  A function declaration is its name, its return type and its parameters in order, each
  with its declared type and name. A parameter list \<^verbatim>\<open>(void)\<close> is the empty list.
\<close>

datatype cfun = Fn (fname: string) (ret: ctype) (params: "(ctype \<times> string) list")

text \<open>Line 36.\<close>

definition chffi_string_free :: cfun where
  "chffi_string_free = Fn ''chffi_string_free'' Int32 [(Ptr (Const Char), ''message'')]"

text \<open>Lines 38 to 44.\<close>

definition chffi_engine_create :: cfun where
  "chffi_engine_create = Fn ''chffi_engine_create'' Int32
    [(Ptr (Named ''CHFFIEngineHandle''), ''outHandle''),
     (Named ''CHFFIEngineCallback'', ''callback''),
     (Ptr Void, ''context''),
     (Ptr (Ptr Char), ''message'')]"

definition chffi_engine_start :: cfun where
  "chffi_engine_start = Fn ''chffi_engine_start'' Int32
    [(Named ''CHFFIEngineHandle'', ''handle''), (Ptr (Ptr Char), ''message'')]"

definition chffi_engine_stop :: cfun where
  "chffi_engine_stop = Fn ''chffi_engine_stop'' Int32
    [(Named ''CHFFIEngineHandle'', ''handle''), (Ptr (Ptr Char), ''message'')]"

definition chffi_engine_release :: cfun where
  "chffi_engine_release = Fn ''chffi_engine_release'' Void
    [(Named ''CHFFIEngineHandle'', ''handle'')]"

text \<open>Lines 46 to 53.\<close>

definition chffi_pattern_from_ahap_data :: cfun where
  "chffi_pattern_from_ahap_data = Fn ''chffi_pattern_from_ahap_data'' Int32
    [(Ptr (Const UInt8), ''bytes''),
     (Int32, ''length''),
     (Ptr (Named ''CHFFIPatternHandle''), ''outPattern''),
     (Ptr (Ptr Char), ''message'')]"

definition chffi_pattern_from_ahap_file :: cfun where
  "chffi_pattern_from_ahap_file = Fn ''chffi_pattern_from_ahap_file'' Int32
    [(Ptr (Const Char), ''path''),
     (Ptr (Named ''CHFFIPatternHandle''), ''outPattern''),
     (Ptr (Ptr Char), ''message'')]"

definition chffi_pattern_release :: cfun where
  "chffi_pattern_release = Fn ''chffi_pattern_release'' Void
    [(Named ''CHFFIPatternHandle'', ''handle'')]"

text \<open>Lines 55 to 71.\<close>

definition chffi_player_create :: cfun where
  "chffi_player_create = Fn ''chffi_player_create'' Int32
    [(Named ''CHFFIEngineHandle'', ''engine''),
     (Named ''CHFFIPatternHandle'', ''pattern''),
     (Ptr (Named ''CHFFIPlayerHandle''), ''outPlayer''),
     (Ptr (Ptr Char), ''message'')]"

definition chffi_player_play :: cfun where
  "chffi_player_play = Fn ''chffi_player_play'' Int32
    [(Named ''CHFFIPlayerHandle'', ''player''),
     (Double, ''atTime''),
     (Ptr (Ptr Char), ''message'')]"

definition chffi_player_stop :: cfun where
  "chffi_player_stop = Fn ''chffi_player_stop'' Int32
    [(Named ''CHFFIPlayerHandle'', ''player''),
     (Double, ''atTime''),
     (Ptr (Ptr Char), ''message'')]"

definition chffi_player_set_loop :: cfun where
  "chffi_player_set_loop = Fn ''chffi_player_set_loop'' Int32
    [(Named ''CHFFIPlayerHandle'', ''player''),
     (Int32, ''enabled''),
     (Double, ''loopStart''),
     (Double, ''loopEnd''),
     (Ptr (Ptr Char), ''message'')]"

definition chffi_player_send_parameter :: cfun where
  "chffi_player_send_parameter = Fn ''chffi_player_send_parameter'' Int32
    [(Named ''CHFFIPlayerHandle'', ''player''),
     (Int32, ''parameterId''),
     (Double, ''value''),
     (Double, ''atTime''),
     (Ptr (Ptr Char), ''message'')]"

definition chffi_player_release :: cfun where
  "chffi_player_release = Fn ''chffi_player_release'' Void
    [(Named ''CHFFIPlayerHandle'', ''player'')]"

text \<open>Line 73.\<close>

definition chffi_supports_haptics :: cfun where
  "chffi_supports_haptics = Fn ''chffi_supports_haptics'' Int32 []"

text \<open>Lines 75 to 85.\<close>

definition chffi_impact_light :: cfun where
  "chffi_impact_light = Fn ''chffi_impact_light'' Void []"

definition chffi_impact_medium :: cfun where
  "chffi_impact_medium = Fn ''chffi_impact_medium'' Void []"

definition chffi_impact_heavy :: cfun where
  "chffi_impact_heavy = Fn ''chffi_impact_heavy'' Void []"

definition chffi_impact_soft :: cfun where
  "chffi_impact_soft = Fn ''chffi_impact_soft'' Void []"

definition chffi_impact_rigid :: cfun where
  "chffi_impact_rigid = Fn ''chffi_impact_rigid'' Void []"

definition chffi_notification_success :: cfun where
  "chffi_notification_success = Fn ''chffi_notification_success'' Void []"

definition chffi_notification_warning :: cfun where
  "chffi_notification_warning = Fn ''chffi_notification_warning'' Void []"

definition chffi_notification_error :: cfun where
  "chffi_notification_error = Fn ''chffi_notification_error'' Void []"

definition chffi_selection :: cfun where
  "chffi_selection = Fn ''chffi_selection'' Void []"

text \<open>Every function the header declares, in the order of declaration.\<close>

definition interface :: "cfun list" where
  "interface =
    [chffi_string_free,
     chffi_engine_create, chffi_engine_start, chffi_engine_stop, chffi_engine_release,
     chffi_pattern_from_ahap_data, chffi_pattern_from_ahap_file, chffi_pattern_release,
     chffi_player_create, chffi_player_play, chffi_player_stop, chffi_player_set_loop,
     chffi_player_send_parameter, chffi_player_release,
     chffi_supports_haptics,
     chffi_impact_light, chffi_impact_medium, chffi_impact_heavy, chffi_impact_soft,
     chffi_impact_rigid,
     chffi_notification_success, chffi_notification_warning, chffi_notification_error,
     chffi_selection]"

lemmas cfun_defs =
  chffi_string_free_def
  chffi_engine_create_def chffi_engine_start_def chffi_engine_stop_def
  chffi_engine_release_def
  chffi_pattern_from_ahap_data_def chffi_pattern_from_ahap_file_def
  chffi_pattern_release_def
  chffi_player_create_def chffi_player_play_def chffi_player_stop_def
  chffi_player_set_loop_def chffi_player_send_parameter_def chffi_player_release_def
  chffi_supports_haptics_def
  chffi_impact_light_def chffi_impact_medium_def chffi_impact_heavy_def
  chffi_impact_soft_def chffi_impact_rigid_def
  chffi_notification_success_def chffi_notification_warning_def
  chffi_notification_error_def
  chffi_selection_def

text \<open>The nine one-shot feedback triggers of lines 75 to 85.\<close>

definition triggers :: "cfun list" where
  "triggers =
    [chffi_impact_light, chffi_impact_medium, chffi_impact_heavy, chffi_impact_soft,
     chffi_impact_rigid,
     chffi_notification_success, chffi_notification_warning, chffi_notification_error,
     chffi_selection]"

text \<open>Reading a declaration: resolved parameter types, and the parameters of a given kind.\<close>

definition param_types :: "cfun \<Rightarrow> ctype list" where
  "param_types f = map (\<lambda>p. resolve (fst p)) (params f)"

definition param_type :: "cfun \<Rightarrow> string \<Rightarrow> ctype option" where
  "param_type f n = map_option fst (find (\<lambda>p. snd p = n) (params f))"

text \<open>A message out-parameter is a parameter of type \<^verbatim>\<open>char**\<close>.\<close>

definition message_params :: "cfun \<Rightarrow> string list" where
  "message_params f = map snd (filter (\<lambda>p. resolve (fst p) = Ptr (Ptr Char)) (params f))"

text \<open>A handle parameter is declared with one of the three handle names, passed by value.\<close>

definition handle_params :: "cfun \<Rightarrow> (ctype \<times> string) list" where
  "handle_params f = filter (\<lambda>p. fst p \<in> Named ` set handle_names) (params f)"

section \<open>What a parameter accepts, and the values of the integer types\<close>

text \<open>
  An argument is passed as if assigned to the parameter. Two of C's rules are enough for
  this header: the two types are the same once typedef names are expanded, or both are
  pointers to the same type up to qualifiers, the parameter's pointee being
  \<^verbatim>\<open>const\<close> whenever the argument's is (a \<^verbatim>\<open>char*\<close> may be passed for a
  \<^verbatim>\<open>const char*\<close>, not the reverse).
\<close>

fun unqualified :: "ctype \<Rightarrow> ctype" where
  "unqualified (Const t) = unqualified t"
| "unqualified t = t"

fun is_const :: "ctype \<Rightarrow> bool" where
  "is_const (Const t) = True"
| "is_const t = False"

fun compatible :: "ctype \<Rightarrow> ctype \<Rightarrow> bool" where
  "compatible (Ptr pt) (Ptr at) =
     (unqualified pt = unqualified at \<and> (is_const pt \<or> \<not> is_const at))"
| "compatible pt at = (pt = at)"

definition accepts :: "ctype \<Rightarrow> ctype \<Rightarrow> bool" where
  "accepts p a = compatible (resolve p) (resolve a)"

text \<open>
  \<^verbatim>\<open>int32_t\<close> is the two's complement integer of exactly 32 bits and \<^verbatim>\<open>uint8_t\<close> the
  unsigned integer of exactly 8 bits: an integer is a value of the type when it survives
  the trip through a machine word of that width.
\<close>

fun representable :: "ctype \<Rightarrow> int \<Rightarrow> bool" where
  "representable Int32 v = (sint (word_of_int v :: 32 word) = v)"
| "representable UInt8 v = (uint (word_of_int v :: 8 word) = v)"
| "representable t v = False"

section \<open>The behaviour behind the declarations, as the specification gives it\<close>

text \<open>
  Modelled from the spec: the implementation file that defines the declared functions is
  not among the sources; only the header is. The handles and message strings it hands
  out are pointers, here addresses.
\<close>

type_synonym addr = nat

text \<open>
  Modelled from the spec: the state of the missing implementation, as far as the
  specification speaks of it: which handles are live (created and not yet released), and
  which message strings the callee has allocated and the caller has not yet freed.
\<close>

record ffi_state =
  engines :: "addr set"
  patterns :: "addr set"
  players :: "addr set"
  messages :: "addr set"

text \<open>
  Modelled from the spec: the state before any call of the interface, which the
  implementation file would set up. Nothing has been created.
\<close>

definition initial_state :: ffi_state where
  "initial_state = \<lparr>engines = {}, patterns = {}, players = {}, messages = {}\<rparr>"

text \<open>
  Modelled from the spec: every function forwards to the vendor framework, whose behaviour
  is out of scope. What the framework and the allocator answer to one forwarded call is
  therefore an input of the model: the status the call ends with when its handles are
  valid, the address of the object a create call makes, and the message string the callee
  allocates when the call fails (\<open>None\<close>: it leaves the out-parameter null, which the
  specification allows: a failing call "may" populate it).
\<close>

record vendor =
  outcome :: chffi_error
  object :: addr
  msg :: "addr option"

text \<open>
  Modelled from the spec: a call of one of the ten functions that return a status and take
  a message out-parameter, with the handles it is given. The other arguments (callback,
  bytes, path, times, parameter values) go to the vendor framework unchanged.
\<close>

datatype call =
    Engine_create
  | Engine_start addr
  | Engine_stop addr
  | Pattern_from_ahap_data
  | Pattern_from_ahap_file
  | Player_create addr addr
  | Player_play addr
  | Player_stop addr
  | Player_set_loop addr
  | Player_send_parameter addr

text \<open>The function of the header that a call invokes.\<close>

fun decl_of :: "call \<Rightarrow> cfun" where
  "decl_of Engine_create = chffi_engine_create"
| "decl_of (Engine_start h) = chffi_engine_start"
| "decl_of (Engine_stop h) = chffi_engine_stop"
| "decl_of Pattern_from_ahap_data = chffi_pattern_from_ahap_data"
| "decl_of Pattern_from_ahap_file = chffi_pattern_from_ahap_file"
| "decl_of (Player_create e p) = chffi_player_create"
| "decl_of (Player_play h) = chffi_player_play"
| "decl_of (Player_stop h) = chffi_player_stop"
| "decl_of (Player_set_loop h) = chffi_player_set_loop"
| "decl_of (Player_send_parameter h) = chffi_player_send_parameter"

text \<open>
  Modelled from the spec: the handle check of the missing implementation. A handle is
  valid for a call when it is live as a handle of the kind the parameter is declared with;
  a released handle and one that was never created are not.
\<close>

fun handles_live :: "call \<Rightarrow> ffi_state \<Rightarrow> bool" where
  "handles_live Engine_create s = True"
| "handles_live (Engine_start h) s = (h \<in> engines s)"
| "handles_live (Engine_stop h) s = (h \<in> engines s)"
| "handles_live Pattern_from_ahap_data s = True"
| "handles_live Pattern_from_ahap_file s = True"
| "handles_live (Player_create e p) s = (e \<in> engines s \<and> p \<in> patterns s)"
| "handles_live (Player_play h) s = (h \<in> players s)"
| "handles_live (Player_stop h) s = (h \<in> players s)"
| "handles_live (Player_set_loop h) s = (h \<in> players s)"
| "handles_live (Player_send_parameter h) s = (h \<in> players s)"

text \<open>
  Modelled from the spec: what a successful call of the missing implementation adds to
  the live handles. A create or decode call writes a new handle through its out-parameter;
  the other calls act inside the vendor framework only.
\<close>

fun succeed :: "call \<Rightarrow> addr \<Rightarrow> ffi_state \<Rightarrow> ffi_state" where
  "succeed Engine_create a s = s\<lparr>engines := insert a (engines s)\<rparr>"
| "succeed Pattern_from_ahap_data a s = s\<lparr>patterns := insert a (patterns s)\<rparr>"
| "succeed Pattern_from_ahap_file a s = s\<lparr>patterns := insert a (patterns s)\<rparr>"
| "succeed (Player_create e p) a s = s\<lparr>players := insert a (players s)\<rparr>"
| "succeed c a s = s"

text \<open>
  Modelled from the spec: the error reporting convention of the missing implementation.
  A call returns its status code and what it has written through the message
  out-parameter (\<open>None\<close>: null), and leaves a state. A failing call may populate the
  message with a string that the callee allocates; the string is then live until the
  caller frees it.
\<close>

definition fail ::
  "chffi_error \<Rightarrow> addr option \<Rightarrow> ffi_state \<Rightarrow> int \<times> addr option \<times> ffi_state" where
  "fail e m s =
     (error_code e, m,
      case m of None \<Rightarrow> s | Some a \<Rightarrow> s\<lparr>messages := insert a (messages s)\<rparr>)"

text \<open>
  Modelled from the spec: one call of the missing implementation. A handle that is not
  live yields the invalid-handle code; otherwise the call is forwarded, and ends as the
  vendor framework says. A successful call writes no message.
\<close>

definition perform :: "call \<Rightarrow> vendor \<Rightarrow> ffi_state \<Rightarrow> int \<times> addr option \<times> ffi_state" where
  "perform c v s =
     (if \<not> handles_live c s then fail CHFFI_ERROR_INVALID_HANDLE (msg v) s
      else if outcome v = CHFFI_ERROR_OK
        then (error_code CHFFI_ERROR_OK, None, succeed c (object v) s)
      else fail (outcome v) (msg v) s)"

text \<open>
  Modelled from the spec: the release of an engine in the missing implementation. It
  returns nothing; the handle is no longer live afterwards.
\<close>

definition engine_release :: "addr \<Rightarrow> ffi_state \<Rightarrow> ffi_state" where
  "engine_release h s = s\<lparr>engines := engines s - {h}\<rparr>"

text \<open>
  Modelled from the spec: the release of a pattern in the missing implementation, as for
  an engine.
\<close>

definition pattern_release :: "addr \<Rightarrow> ffi_state \<Rightarrow> ffi_state" where
  "pattern_release h s = s\<lparr>patterns := patterns s - {h}\<rparr>"

text \<open>
  Modelled from the spec: the release of a player in the missing implementation, as for
  an engine.
\<close>

definition player_release :: "addr \<Rightarrow> ffi_state \<Rightarrow> ffi_state" where
  "player_release h s = s\<lparr>players := players s - {h}\<rparr>"

text \<open>
  Modelled from the spec: the free function of the missing implementation. It releases a
  message string that a failing call has populated. Freeing twice is undefined in the
  specification, as is freeing what no call has produced: \<open>None\<close>.
\<close>

definition string_free :: "addr \<Rightarrow> ffi_state \<Rightarrow> (int \<times> ffi_state) option" where
  "string_free m s =
     (if m \<in> messages s
      then Some (error_code CHFFI_ERROR_OK, s\<lparr>messages := messages s - {m}\<rparr>)
      else None)"

text \<open>
  Modelled from the spec: the capability query of the missing implementation. Whether the
  hardware supports haptics is the vendor framework's answer; the query returns it as a
  boolean-like integer and touches no state.
\<close>

definition supports_haptics :: "bool \<Rightarrow> ffi_state \<Rightarrow> int \<times> ffi_state" where
  "supports_haptics hardware s = (if hardware then 1 else 0, s)"

section \<open>The enumerations: values and membership\<close>

lemma error_members_all: "set error_members = UNIV"
proof
  show "UNIV \<subseteq> set error_members"
  proof
    fix e :: chffi_error
    show "e \<in> set error_members"
      by (cases e) (simp_all add: error_members_def)
  qed
qed simp

lemma event_members_all: "set event_members = UNIV"
proof
  show "UNIV \<subseteq> set event_members"
  proof
    fix e :: chffi_event
    show "e \<in> set event_members"
      by (cases e) (simp_all add: event_members_def)
  qed
qed simp

lemma error_code_range: "(\<exists>e. error_code e = v) \<longleftrightarrow> (0 \<le> v \<and> v \<le> 9) \<or> v = 255"
proof
  assume "\<exists>e. error_code e = v"
  then obtain e where "error_code e = v" ..
  then show "(0 \<le> v \<and> v \<le> 9) \<or> v = 255"
    by (cases e) auto
next
  assume "(0 \<le> v \<and> v \<le> 9) \<or> v = 255"
  then have "v = 0 \<or> v = 1 \<or> v = 2 \<or> v = 3 \<or> v = 4 \<or> v = 5 \<or> v = 6 \<or> v = 7
      \<or> v = 8 \<or> v = 9 \<or> v = 255"
    by presburger
  then have "v \<in> {0, 1, 2, 3, 4, 5, 6, 7, 8, 9, 255}"
    by simp
  also have "{0, 1, 2, 3, 4, 5, 6, 7, 8, 9, 255} = error_code ` set error_members"
    by (simp add: error_members_def)
  finally show "\<exists>e. error_code e = v"
    by auto
qed

lemma event_code_range: "(\<exists>e. event_code e = v) \<longleftrightarrow> 1 \<le> v \<and> v \<le> 4"
proof
  assume "\<exists>e. event_code e = v"
  then obtain e where "event_code e = v" ..
  then show "1 \<le> v \<and> v \<le> 4"
    by (cases e) auto
next
  assume "1 \<le> v \<and> v \<le> 4"
  then have "v = 1 \<or> v = 2 \<or> v = 3 \<or> v = 4"
    by presburger
  then have "v \<in> {1, 2, 3, 4}"
    by simp
  also have "{1, 2, 3, 4} = event_code ` set event_members"
    by (simp add: event_members_def)
  finally show "\<exists>e. event_code e = v"
    by auto
qed

text \<open>
  C1. The enumeration of status codes has exactly eleven members: ok, not supported, engine
  error, invalid handle, invalid argument, pattern error, player error, I/O error, decode
  error and runtime error with the values 0 to 9 in this order, and unknown with the value
  255. There is no other member, and no two members share a value.
\<close>

theorem error_enumeration_exact:
  "map error_code error_members = [0, 1, 2, 3, 4, 5, 6, 7, 8, 9, 255]
   \<and> set error_members = UNIV
   \<and> length error_members = 11
   \<and> distinct error_members
   \<and> range error_code = {0, 1, 2, 3, 4, 5, 6, 7, 8, 9, 255}"
proof -
  have vals: "map error_code error_members = [0, 1, 2, 3, 4, 5, 6, 7, 8, 9, 255]"
    by (simp add: error_members_def)
  have count: "length error_members = 11"
    by (simp add: error_members_def)
  have once: "distinct error_members"
    by (simp add: error_members_def)
  have "range error_code = set (map error_code error_members)"
    by (simp only: set_map error_members_all)
  then have image: "range error_code = {0, 1, 2, 3, 4, 5, 6, 7, 8, 9, 255}"
    by (simp only: vals) simp
  from vals error_members_all count once image show ?thesis
    by (intro conjI)
qed

text \<open>
  C2. The enumeration of engine events has exactly four members: stopped, reset,
  interrupted and restarted, with the consecutive values 1, 2, 3 and 4 in this order.
  There is no other member.
\<close>

theorem event_enumeration_exact:
  "map event_code event_members = [1, 2, 3, 4]
   \<and> set event_members = UNIV
   \<and> length event_members = 4
   \<and> distinct event_members
   \<and> range event_code = {1, 2, 3, 4}"
proof -
  have vals: "map event_code event_members = [1, 2, 3, 4]"
    by (simp add: event_members_def)
  have count: "length event_members = 4"
    by (simp add: event_members_def)
  have once: "distinct event_members"
    by (simp add: event_members_def)
  have "range event_code = set (map event_code event_members)"
    by (simp only: set_map event_members_all)
  then have image: "range event_code = {1, 2, 3, 4}"
    by (simp only: vals) simp
  from vals event_members_all count once image show ?thesis
    by (intro conjI)
qed

section \<open>The declared signatures\<close>

text \<open>
  C3, as the header has it. Every declared function returns either \<^verbatim>\<open>int32_t\<close> or
  \<^verbatim>\<open>void\<close>. Twelve return \<^verbatim>\<open>int32_t\<close>; the three release functions and the nine
  one-shot triggers return \<^verbatim>\<open>void\<close>. Exactly ten functions take a \<^verbatim>\<open>char**\<close>
  out-parameter; in each it is the last parameter, it is named message, and the function
  returns \<^verbatim>\<open>int32_t\<close>. \<^verbatim>\<open>chffi_string_free\<close> and \<^verbatim>\<open>chffi_supports_haptics\<close>
  return \<^verbatim>\<open>int32_t\<close> and take no message out-parameter.
\<close>

theorem return_types_and_message_parameters:
  "filter (\<lambda>f. ret f = Int32) interface =
     [chffi_string_free, chffi_engine_create, chffi_engine_start, chffi_engine_stop,
      chffi_pattern_from_ahap_data, chffi_pattern_from_ahap_file,
      chffi_player_create, chffi_player_play, chffi_player_stop, chffi_player_set_loop,
      chffi_player_send_parameter, chffi_supports_haptics]
   \<and> filter (\<lambda>f. ret f = Void) interface =
     [chffi_engine_release, chffi_pattern_release, chffi_player_release] @ triggers
   \<and> filter (\<lambda>f. ret f \<noteq> Int32 \<and> ret f \<noteq> Void) interface = []
   \<and> filter (\<lambda>f. message_params f \<noteq> []) interface =
     [chffi_engine_create, chffi_engine_start, chffi_engine_stop,
      chffi_pattern_from_ahap_data, chffi_pattern_from_ahap_file,
      chffi_player_create, chffi_player_play, chffi_player_stop, chffi_player_set_loop,
      chffi_player_send_parameter]
   \<and> map (\<lambda>f. (ret f, last (params f), message_params f))
        (filter (\<lambda>f. message_params f \<noteq> []) interface) =
     replicate 10 (Int32, (Ptr (Ptr Char), ''message''), [''message''])"
proof -
  have a: "filter (\<lambda>f. ret f = Int32) interface =
     [chffi_string_free, chffi_engine_create, chffi_engine_start, chffi_engine_stop,
      chffi_pattern_from_ahap_data, chffi_pattern_from_ahap_file,
      chffi_player_create, chffi_player_play, chffi_player_stop, chffi_player_set_loop,
      chffi_player_send_parameter, chffi_supports_haptics]"
    by (simp add: interface_def cfun_defs)
  have b: "filter (\<lambda>f. ret f = Void) interface =
     [chffi_engine_release, chffi_pattern_release, chffi_player_release] @ triggers"
    by (simp add: interface_def triggers_def cfun_defs)
  have c: "filter (\<lambda>f. ret f \<noteq> Int32 \<and> ret f \<noteq> Void) interface = []"
    by (simp add: interface_def cfun_defs)
  have d: "filter (\<lambda>f. message_params f \<noteq> []) interface =
     [chffi_engine_create, chffi_engine_start, chffi_engine_stop,
      chffi_pattern_from_ahap_data, chffi_pattern_from_ahap_file,
      chffi_player_create, chffi_player_play, chffi_player_stop, chffi_player_set_loop,
      chffi_player_send_parameter]"
    by (simp add: interface_def cfun_defs message_params_def typedefs_def)
  have e: "map (\<lambda>f. (ret f, last (params f), message_params f))
        (filter (\<lambda>f. message_params f \<noteq> []) interface) =
     replicate 10 (Int32, (Ptr (Ptr Char), ''message''), [''message''])"
    by (simp only: d) (simp add: cfun_defs message_params_def typedefs_def eval_nat_numeral)
  from a b c d e show ?thesis
    by (intro conjI)
qed

text \<open>
  C3 as stated fails: \<^verbatim>\<open>chffi_engine_release\<close> is a function of the interface and
  returns \<^verbatim>\<open>void\<close>, not a status code.
\<close>

theorem not_every_function_returns_status:
  "chffi_engine_release \<in> set interface
   \<and> ret chffi_engine_release = Void
   \<and> ret chffi_engine_release \<noteq> Int32"
  by (simp add: interface_def chffi_engine_release_def)

text \<open>
  C4. The nine one-shot feedback triggers (five impacts, three notifications, selection)
  are exactly the declared functions that take no parameter and return \<^verbatim>\<open>void\<close>: no
  engine, pattern or player is handed to them, and they return no status.
\<close>

theorem triggers_take_and_return_nothing:
  "map fname triggers =
     [''chffi_impact_light'', ''chffi_impact_medium'', ''chffi_impact_heavy'',
      ''chffi_impact_soft'', ''chffi_impact_rigid'',
      ''chffi_notification_success'', ''chffi_notification_warning'',
      ''chffi_notification_error'', ''chffi_selection'']
   \<and> filter (\<lambda>f. params f = [] \<and> ret f = Void) interface = triggers
   \<and> (\<forall>f \<in> set triggers. params f = [] \<and> handle_params f = [] \<and> ret f = Void)"
  by (simp add: triggers_def interface_def cfun_defs handle_params_def)

theorem triggers_take_and_return_nothing_witness:
  "chffi_selection \<in> set triggers
   \<and> params chffi_selection = []
   \<and> ret chffi_selection = Void"
proof -
  have "chffi_selection \<in> set triggers"
    by (simp add: triggers_def)
  with triggers_take_and_return_nothing show ?thesis
    by blast
qed

section \<open>The handle types\<close>

lemma handle_resolves: "h \<in> set handle_names \<Longrightarrow> resolve (Named h) = Ptr Void"
  by (auto simp: handle_names_def typedefs_def)

lemma handles_accept_each_other:
  "h \<in> set handle_names \<Longrightarrow> g \<in> set handle_names \<Longrightarrow> accepts (Named h) (Named g)"
  by (simp only: accepts_def handle_resolves) simp

lemma out_handles_accept_each_other:
  "h \<in> set handle_names \<Longrightarrow> g \<in> set handle_names \<Longrightarrow>
   accepts (Ptr (Named h)) (Ptr (Named g))"
  by (simp add: accepts_def handle_resolves del: resolve.simps(1))

text \<open>
  C8. The three handle names are declared as the same type \<^verbatim>\<open>void*\<close>. So a handle of
  any kind is accepted wherever a declared signature expects a handle of any kind, by
  value or through an out-parameter: the types do not tell an engine from a pattern or a
  player.
\<close>

theorem handle_types_interchangeable:
  "(\<forall>h \<in> set handle_names. map_of typedefs h = Some (Ptr Void))
   \<and> (\<forall>h \<in> set handle_names. \<forall>g \<in> set handle_names.
        resolve (Named h) = resolve (Named g)
        \<and> accepts (Named h) (Named g)
        \<and> accepts (Ptr (Named h)) (Ptr (Named g)))
   \<and> (\<forall>f \<in> set interface. \<forall>p \<in> set (handle_params f). \<forall>g \<in> set handle_names.
        accepts (fst p) (Named g))"
proof (intro conjI ballI)
  fix h assume "h \<in> set handle_names"
  then show "map_of typedefs h = Some (Ptr Void)"
    by (auto simp: handle_names_def typedefs_def)
next
  fix h g assume "h \<in> set handle_names" "g \<in> set handle_names"
  then show "resolve (Named h) = resolve (Named g)"
    by (simp only: handle_resolves)
next
  fix h g assume "h \<in> set handle_names" "g \<in> set handle_names"
  then show "accepts (Named h) (Named g)"
    by (rule handles_accept_each_other)
next
  fix h g assume "h \<in> set handle_names" "g \<in> set handle_names"
  then show "accepts (Ptr (Named h)) (Ptr (Named g))"
    by (rule out_handles_accept_each_other)
next
  fix f p g
  assume "p \<in> set (handle_params f)" and g: "g \<in> set handle_names"
  then obtain h where "fst p = Named h" "h \<in> set handle_names"
    by (auto simp: handle_params_def)
  with g show "accepts (fst p) (Named g)"
    by (simp only: handles_accept_each_other)
qed

theorem handle_types_interchangeable_witness:
  "(Named ''CHFFIEngineHandle'', ''engine'') \<in> set (handle_params chffi_player_create)
   \<and> accepts (Named ''CHFFIEngineHandle'') (Named ''CHFFIPatternHandle'')"
proof -
  have f: "chffi_player_create \<in> set interface"
    by (simp add: interface_def)
  have p: "(Named ''CHFFIEngineHandle'', ''engine'') \<in> set (handle_params chffi_player_create)"
    by (simp add: handle_params_def handle_names_def chffi_player_create_def)
  have g: "''CHFFIPatternHandle'' \<in> set handle_names"
    by (simp add: handle_names_def)
  from handle_types_interchangeable f p g
  have "accepts (fst (Named ''CHFFIEngineHandle'', ''engine'')) (Named ''CHFFIPatternHandle'')"
    by blast
  with p show ?thesis
    by simp
qed

section \<open>Integer parameters and results\<close>

lemma representable_int32:
  "representable Int32 v \<longleftrightarrow> - (2 ^ 31) \<le> v \<and> v \<le> 2 ^ 31 - 1"
proof
  assume "representable Int32 v"
  then have eq: "sint (word_of_int v :: 32 word) = v"
    by simp
  have "- (2 ^ 31) \<le> sint (word_of_int v :: 32 word)"
    using sint_ge [of "word_of_int v :: 32 word"] by simp
  moreover have "sint (word_of_int v :: 32 word) < 2 ^ 31"
    using sint_lt [of "word_of_int v :: 32 word"] by simp
  ultimately show "- (2 ^ 31) \<le> v \<and> v \<le> 2 ^ 31 - 1"
    by (simp add: eq)
next
  assume "- (2 ^ 31) \<le> v \<and> v \<le> 2 ^ 31 - 1"
  then have "sint (word_of_int v :: 32 word) = v"
    by (simp add: sint_sbintrunc' signed_take_bit_int_eq_self)
  then show "representable Int32 v"
    by simp
qed

text \<open>
  C9. \<^verbatim>\<open>chffi_string_free\<close> returns \<^verbatim>\<open>int32_t\<close>, not \<^verbatim>\<open>void\<close>, and every status
  code of the enumeration, ok as well as each error, is a value of that return type: the
  free function can report its own success or failure.
\<close>

theorem string_free_returns_status:
  "ret chffi_string_free = Int32
   \<and> ret chffi_string_free \<noteq> Void
   \<and> representable (ret chffi_string_free) (error_code e)"
  by (cases e) (simp_all add: chffi_string_free_def)

text \<open>
  C10. The parameter length of \<^verbatim>\<open>chffi_pattern_from_ahap_data\<close> is an \<^verbatim>\<open>int32_t\<close>.
  The lengths it can carry are exactly the integers from \<open>-2^31\<close> to \<open>2^31 - 1\<close>: a
  negative length such as \<open>-1\<close> is a value of the type, and a length of \<open>2^31\<close> bytes or
  more is not.
\<close>

theorem ahap_data_length_is_int32:
  "param_type chffi_pattern_from_ahap_data ''length'' = Some Int32
   \<and> (representable Int32 v \<longleftrightarrow> - (2 ^ 31) \<le> v \<and> v \<le> 2 ^ 31 - 1)
   \<and> representable Int32 (- 1)
   \<and> representable Int32 (- (2 ^ 31))
   \<and> representable Int32 (2 ^ 31 - 1)
   \<and> \<not> representable Int32 (2 ^ 31)"
proof -
  have "param_type chffi_pattern_from_ahap_data ''length'' = Some Int32"
    by (simp add: param_type_def chffi_pattern_from_ahap_data_def)
  moreover have "representable Int32 (- 1)" "representable Int32 (- (2 ^ 31))"
    "representable Int32 (2 ^ 31 - 1)" "\<not> representable Int32 (2 ^ 31)"
    by (simp_all only: representable_int32) simp_all
  ultimately show ?thesis
    using representable_int32 [of v] by blast
qed

section \<open>Behaviour behind the declarations\<close>

lemma perform_invalid:
  "\<not> handles_live c s \<Longrightarrow> perform c v s = fail CHFFI_ERROR_INVALID_HANDLE (msg v) s"
  by (simp add: perform_def)

lemma fail_tables:
  "engines (snd (snd (fail e m s))) = engines s"
  "patterns (snd (snd (fail e m s))) = patterns s"
  "players (snd (snd (fail e m s))) = players s"
  "messages (snd (snd (fail e m s))) = messages s \<union> set_option m"
  by (cases m; simp add: fail_def)+

lemma not_live_takes_handle:
  "\<not> handles_live c s \<Longrightarrow> handle_params (decl_of c) \<noteq> [] \<and> ret (decl_of c) = Int32"
  by (cases c) (simp_all add: handle_params_def handle_names_def cfun_defs)

lemma decl_of_message:
  "message_params (decl_of c) = [''message'']
   \<and> last (params (decl_of c)) = (Ptr (Ptr Char), ''message'')"
  by (cases c) (simp_all add: message_params_def typedefs_def cfun_defs)

lemma decl_of_covers:
  "set (filter (\<lambda>f. message_params f \<noteq> []) interface) = range decl_of"
proof
  show "set (filter (\<lambda>f. message_params f \<noteq> []) interface) \<subseteq> range decl_of"
  proof
    fix f
    assume "f \<in> set (filter (\<lambda>f. message_params f \<noteq> []) interface)"
    then have "f \<in> {decl_of Engine_create, decl_of (Engine_start 0), decl_of (Engine_stop 0),
        decl_of Pattern_from_ahap_data, decl_of Pattern_from_ahap_file,
        decl_of (Player_create 0 0), decl_of (Player_play 0), decl_of (Player_stop 0),
        decl_of (Player_set_loop 0), decl_of (Player_send_parameter 0)}"
      by (simp add: interface_def cfun_defs message_params_def typedefs_def)
    then show "f \<in> range decl_of"
      by blast
  qed
next
  show "range decl_of \<subseteq> set (filter (\<lambda>f. message_params f \<noteq> []) interface)"
  proof
    fix f
    assume "f \<in> range decl_of"
    then obtain c where f: "f = decl_of c" ..
    have "decl_of c \<in> set interface"
      by (cases c) (simp_all add: interface_def)
    with decl_of_message [of c] show "f \<in> set (filter (\<lambda>f. message_params f \<noteq> []) interface)"
      by (simp add: f)
  qed
qed

lemma perform_message:
  assumes "perform c v s = (code, Some m, s')"
  shows "code \<noteq> 0 \<and> s' = s\<lparr>messages := insert m (messages s)\<rparr>"
  using assms
  by (cases "outcome v") (auto simp: perform_def fail_def split: if_splits option.splits)

lemma released_is_not_live:
  "\<not> handles_live (Engine_start h) (engine_release h s)"
  "\<not> handles_live (Engine_stop h) (engine_release h s)"
  "\<not> handles_live (Player_create h p) (engine_release h s)"
  "\<not> handles_live (Player_create e h) (pattern_release h s)"
  "\<not> handles_live (Player_play h) (player_release h s)"
  "\<not> handles_live (Player_stop h) (player_release h s)"
  "\<not> handles_live (Player_set_loop h) (player_release h s)"
  "\<not> handles_live (Player_send_parameter h) (player_release h s)"
  by (simp_all add: engine_release_def pattern_release_def player_release_def)

lemma never_created_is_not_live:
  "handle_params (decl_of c) \<noteq> [] \<Longrightarrow> \<not> handles_live c initial_state"
  by (cases c) (simp_all add: initial_state_def handle_params_def handle_names_def cfun_defs)

text \<open>
  C5. Each of the ten operations that return a status has exactly one \<^verbatim>\<open>char**\<close>
  parameter, message, and \<^verbatim>\<open>chffi_string_free\<close> takes one \<^verbatim>\<open>const char*\<close>, which
  accepts the \<^verbatim>\<open>char*\<close> written through it. When a call populates the message with a
  freshly allocated string, the string is live afterwards; freeing it once succeeds and
  leaves the state as it was before the call, so nothing leaks; freeing it again is
  undefined.
\<close>

theorem message_freed_exactly_once:
  assumes "perform c v s = (code, Some m, s')" and "m \<notin> messages s"
  shows "message_params (decl_of c) = [''message'']
    \<and> last (params (decl_of c)) = (Ptr (Ptr Char), ''message'')
    \<and> map fst (params chffi_string_free) = [Ptr (Const Char)]
    \<and> accepts (Ptr (Const Char)) (Ptr Char)
    \<and> m \<in> messages s'
    \<and> string_free m s' = Some (0, s)
    \<and> string_free m s = None"
proof -
  from assms(1) have s': "s' = s\<lparr>messages := insert m (messages s)\<rparr>"
    using perform_message by blast
  have "string_free m s' = Some (0, s)"
    using assms(2) by (simp add: s' string_free_def)
  moreover have "string_free m s = None"
    using assms(2) by (simp add: string_free_def)
  moreover have "m \<in> messages s'"
    by (simp add: s')
  moreover have "map fst (params chffi_string_free) = [Ptr (Const Char)]"
    by (simp add: chffi_string_free_def)
  moreover have "accepts (Ptr (Const Char)) (Ptr Char)"
    by (simp add: accepts_def)
  ultimately show ?thesis
    using decl_of_message [of c] by simp
qed

theorem message_freed_exactly_once_witness:
  "perform (Engine_start 1) \<lparr>outcome = CHFFI_ERROR_OK, object = 0, msg = Some 42\<rparr>
      initial_state
     = (3, Some 42, initial_state\<lparr>messages := {42}\<rparr>)
   \<and> string_free 42 (initial_state\<lparr>messages := {42}\<rparr>) = Some (0, initial_state)
   \<and> string_free 42 initial_state = None"
proof -
  let ?v = "\<lparr>outcome = CHFFI_ERROR_OK, object = 0, msg = Some 42\<rparr>"
  have call: "perform (Engine_start 1) ?v initial_state
      = (3, Some 42, initial_state\<lparr>messages := {42}\<rparr>)"
    by (simp add: perform_def fail_def initial_state_def)
  have fresh: "42 \<notin> messages initial_state"
    by (simp add: initial_state_def)
  from message_freed_exactly_once [OF call fresh] call show ?thesis
    by blast
qed

text \<open>
  C6. A call of a handle-taking operation (engine start and stop, player create, play,
  stop, set-loop and send-parameter) with a handle that is not live, because it was
  released or never created, returns the invalid-handle code 3. It changes no engine,
  pattern or player; all it leaves besides the status is the message of the error report,
  when the callee populates one.
\<close>

theorem invalid_handle_yields_code_3:
  assumes "\<not> handles_live c s"
  shows "handle_params (decl_of c) \<noteq> []
    \<and> fst (perform c v s) = error_code CHFFI_ERROR_INVALID_HANDLE
    \<and> fst (perform c v s) = 3
    \<and> fst (snd (perform c v s)) = msg v
    \<and> engines (snd (snd (perform c v s))) = engines s
    \<and> patterns (snd (snd (perform c v s))) = patterns s
    \<and> players (snd (snd (perform c v s))) = players s
    \<and> messages (snd (snd (perform c v s))) = messages s \<union> set_option (msg v)
    \<and> (msg v = None \<longrightarrow> snd (snd (perform c v s)) = s)"
proof -
  have p: "perform c v s = fail CHFFI_ERROR_INVALID_HANDLE (msg v) s"
    using assms by (rule perform_invalid)
  have "fst (fail CHFFI_ERROR_INVALID_HANDLE (msg v) s) = 3"
    and "fst (snd (fail CHFFI_ERROR_INVALID_HANDLE (msg v) s)) = msg v"
    and "msg v = None \<longrightarrow> snd (snd (fail CHFFI_ERROR_INVALID_HANDLE (msg v) s)) = s"
    by (simp_all add: fail_def)
  then show ?thesis
    using not_live_takes_handle [OF assms] by (simp add: p fail_tables)
qed

theorem invalid_handle_yields_code_3_witness:
  "perform (Engine_start 7)
      \<lparr>outcome = CHFFI_ERROR_OK, object = 0, msg = None\<rparr>
      (engine_release 7 (snd (snd (perform Engine_create
          \<lparr>outcome = CHFFI_ERROR_OK, object = 7, msg = None\<rparr> initial_state))))
    = (3, None, initial_state)
   \<and> fst (perform (Player_play 5)
      \<lparr>outcome = CHFFI_ERROR_OK, object = 0, msg = None\<rparr> initial_state) = 3"
proof -
  let ?v = "\<lparr>outcome = CHFFI_ERROR_OK, object = 0, msg = None\<rparr>"
  let ?s = "engine_release 7 (snd (snd (perform Engine_create
          \<lparr>outcome = CHFFI_ERROR_OK, object = 7, msg = None\<rparr> initial_state)))"
  have s: "?s = initial_state"
    by (simp add: perform_def engine_release_def initial_state_def)
  have released: "\<not> handles_live (Engine_start 7) ?s"
    by (simp add: engine_release_def)
  have never: "\<not> handles_live (Player_play 5) initial_state"
    by (simp add: initial_state_def)
  have "perform (Engine_start 7) ?v ?s = (3, None, initial_state)"
    using invalid_handle_yields_code_3 [OF released, of ?v]
    by (simp only: s) (simp add: perform_def fail_def initial_state_def)
  moreover have "fst (perform (Player_play 5) ?v initial_state) = 3"
    using invalid_handle_yields_code_3 [OF never, of ?v] by blast
  ultimately show ?thesis
    by blast
qed

text \<open>
  C7. \<^verbatim>\<open>chffi_supports_haptics\<close> is declared with no parameter and the return type
  \<^verbatim>\<open>int32_t\<close>. The query answers 0 or 1, nonzero exactly when the hardware supports
  haptics, leaves the state as it found it, and answers the same in the state where
  nothing has been created yet as in any other.
\<close>

theorem supports_haptics_query:
  "params chffi_supports_haptics = []
   \<and> ret chffi_supports_haptics = Int32
   \<and> fst (supports_haptics hardware s) \<in> {0, 1}
   \<and> (fst (supports_haptics hardware s) \<noteq> 0) = hardware
   \<and> representable (ret chffi_supports_haptics) (fst (supports_haptics hardware s))
   \<and> snd (supports_haptics hardware s) = s
   \<and> engines initial_state = {}
   \<and> supports_haptics hardware initial_state
       = (fst (supports_haptics hardware s), initial_state)"
  by (simp add: supports_haptics_def chffi_supports_haptics_def initial_state_def)

end
